theory Spec2Isabelle
  imports Main "HOL-Library.AList"
begin

section \<open>Data model\<close>

text \<open>
  The handlers of \<^verbatim>\<open>profiles/views.py\<close> orchestrate a web framework: its
  settings, its model registry, its tables, its forms. The framework's objects are
  records, its exceptions are values of \<open>exn\<close>, and the process state the
  handlers read and write is the record \<open>world\<close>, passed in and returned.
\<close>

datatype exn = ObjectDoesNotExist | SiteProfileNotAvailable | Http404 | KeyError

record user =
  uid :: nat
  username :: string
  is_authenticated :: bool

datatype val = VNone | VStr string | VInt int | VUser user | VList "val list"

text \<open>A Python dict with string keys, in insertion order; a store replaces the
  value of a key that is present (\<open>AList.update\<close>).\<close>

type_synonym dict = "(string \<times> val) list"

record field =
  name :: string

text \<open>\<^verbatim>\<open>Model._meta\<close>: the scalar fields (\<^verbatim>\<open>_meta.fields\<close>) and the many-to-many fields.\<close>

record options =
  meta_fields :: "field list"
  many_to_many :: "field list"

record model =
  model_label :: string
  meta :: options

text \<open>A model instance: its \<^verbatim>\<open>_meta\<close>, its primary key (\<open>None\<close> until it is
  saved) and its attributes; the relation to the owning user is the attribute
  \<^verbatim>\<open>user\<close>.\<close>

record model_instance =
  inst_meta :: options
  pk :: "nat option"
  attrs :: dict

text \<open>
  A form class, as far as the handlers use one: the class attribute
  \<^verbatim>\<open>base_fields\<close> (a dict from field name to field), the validation of submitted
  data (the list of error messages, empty when the data is valid), the object that
  \<^verbatim>\<open>save\<close> builds from the data, and the optional \<^verbatim>\<open>save_m2m\<close> follow-up, which
  stores the multi-valued relations on the saved object. The methods read the
  class's \<^verbatim>\<open>base_fields\<close>, so each takes them as its first argument.
\<close>

record form_class =
  base_fields :: "(string \<times> field) list"
  clean :: "(string \<times> field) list \<Rightarrow> dict \<Rightarrow> string list"
  save_obj :: "(string \<times> field) list \<Rightarrow> dict \<Rightarrow> model_instance"
  save_m2m :: "((string \<times> field) list \<Rightarrow> dict \<Rightarrow> model_instance \<Rightarrow> model_instance) option"

text \<open>A form object: \<^verbatim>\<open>form_class(data, initial=...)\<close>; \<^verbatim>\<open>form_class()\<close> is
  the unbound form, with neither.\<close>

record form =
  form_cls :: form_class
  form_data :: "dict option"
  form_initial :: "dict option"

datatype url = Reverse string "(string \<times> string) list" | Url string | LoginUrl

record template_context =
  ctx_form :: "form option"
  ctx_profile :: "model_instance option"

datatype response = HttpResponseRedirect url | Rendered string template_context

record request =
  req_user :: user
  req_method :: string
  req_POST :: dict

text \<open>The calls a handler makes to its collaborators, in the order it makes them.\<close>

datatype call =
    CallGetProfile
  | CallResolver
  | CallFormForModel
  | CallFormForInstance
  | CallFormInit "dict option" "dict option"
  | CallIsValid
  | CallFormSave bool
  | AssignUser
  | CallObjSave
  | CallSaveM2M
  | CallRender

record world =
  AUTH_PROFILE_MODULE :: "string option"
  installed_models :: "(string \<times> model) list"
  users :: "user list"
  profiles :: "model_instance list"
  calls :: "call list"

definition log :: "call \<Rightarrow> world \<Rightarrow> world" where
  "log c w = w\<lparr>calls := calls w @ [c]\<rparr>"

definition new_calls :: "world \<Rightarrow> world \<Rightarrow> call list" where
  "new_calls w w' = drop (length (calls w)) (calls w')"

section \<open>The framework's operations\<close>

definition getattr :: "model_instance \<Rightarrow> string \<Rightarrow> val option" where
  "getattr obj n = map_of (attrs obj) n"

definition setattr :: "model_instance \<Rightarrow> string \<Rightarrow> val \<Rightarrow> model_instance" where
  "setattr obj n v = obj\<lparr>attrs := AList.update n v (attrs obj)\<rparr>"

text \<open>
  \<^verbatim>\<open>user.get_profile()\<close> of \<^verbatim>\<open>django.contrib.auth\<close>: it reads the
  \<^verbatim>\<open>AUTH_PROFILE_MODULE\<close> setting first and raises \<^verbatim>\<open>SiteProfileNotAvailable\<close> when
  the setting is unset or names no installed model; only then does it look for the
  row of the profile table whose \<^verbatim>\<open>user\<close> is this user, and raises
  \<^verbatim>\<open>ObjectDoesNotExist\<close> when there is none.
\<close>

definition owned_by :: "user \<Rightarrow> model_instance \<Rightarrow> bool" where
  "owned_by u p = (case getattr p ''user'' of Some (VUser v) \<Rightarrow> uid v = uid u | _ \<Rightarrow> False)"

definition get_profile :: "world \<Rightarrow> user \<Rightarrow> exn + model_instance" where
  "get_profile w u =
     (case AUTH_PROFILE_MODULE w of
        None \<Rightarrow> Inl SiteProfileNotAvailable
      | Some label \<Rightarrow>
          (case map_of (installed_models w) label of
             None \<Rightarrow> Inl SiteProfileNotAvailable
           | Some m \<Rightarrow>
               (case find (owned_by u) (profiles w) of
                  None \<Rightarrow> Inl ObjectDoesNotExist
                | Some p \<Rightarrow> Inr p)))"

text \<open>\<^verbatim>\<open>get_object_or_404(User, username=username)\<close>.\<close>

definition get_object_or_404 :: "world \<Rightarrow> string \<Rightarrow> exn + user" where
  "get_object_or_404 w un =
     (case find (\<lambda>u. username u = un) (users w) of
        None \<Rightarrow> Inl Http404
      | Some u \<Rightarrow> Inr u)"

text \<open>\<^verbatim>\<open>obj.save()\<close>: a row with this primary key is replaced; an object without
  one is given the next free key and appended.\<close>

definition fresh_pk :: "model_instance list \<Rightarrow> nat" where
  "fresh_pk tbl = Suc (fold max (map (\<lambda>r. case pk r of None \<Rightarrow> 0 | Some k \<Rightarrow> k) tbl) 0)"

definition instance_save :: "model_instance \<Rightarrow> model_instance list \<Rightarrow> model_instance \<times> model_instance list" where
  "instance_save obj tbl =
     (case pk obj of
        None \<Rightarrow> (let obj' = obj\<lparr>pk := Some (fresh_pk tbl)\<rparr> in (obj', tbl @ [obj']))
      | Some k \<Rightarrow>
          (if \<exists>r \<in> set tbl. pk r = Some k
           then (obj, map (\<lambda>r. if pk r = Some k then obj else r) tbl)
           else (obj, tbl @ [obj])))"

definition reverse :: "string \<Rightarrow> (string \<times> string) list \<Rightarrow> url" where
  "reverse view_name kwargs = Reverse view_name kwargs"

definition form_errors :: "form \<Rightarrow> string list" where
  "form_errors f =
     (case form_data f of
        None \<Rightarrow> []
      | Some d \<Rightarrow> clean (form_cls f) (base_fields (form_cls f)) d)"

definition is_valid :: "form \<Rightarrow> bool" where
  "is_valid f = (form_data f \<noteq> None \<and> form_errors f = [])"

definition hasattr_save_m2m :: "form \<Rightarrow> bool" where
  "hasattr_save_m2m f = (save_m2m (form_cls f) \<noteq> None)"

definition cleaned_data :: "form \<Rightarrow> dict" where
  "cleaned_data f = (case form_data f of None \<Rightarrow> [] | Some d \<Rightarrow> d)"

text \<open>\<^verbatim>\<open>form.save(commit)\<close>: the form builds its object; with \<^verbatim>\<open>commit=False\<close> the
  object is returned unsaved, with \<^verbatim>\<open>commit=True\<close> the form saves it and stores the
  multi-valued relations itself.\<close>

definition form_save :: "form \<Rightarrow> bool \<Rightarrow> model_instance list \<Rightarrow> model_instance \<times> model_instance list" where
  "form_save f commit tbl =
     (let cls = form_cls f;
          obj = save_obj cls (base_fields cls) (cleaned_data f)
      in if commit
         then (case instance_save obj tbl of
                 (obj', tbl') \<Rightarrow>
                   (case save_m2m cls of
                      None \<Rightarrow> (obj', tbl')
                    | Some m2m \<Rightarrow> instance_save (m2m (base_fields cls) (cleaned_data f) obj') tbl'))
         else (obj, tbl))"

text \<open>\<^verbatim>\<open>form.save_m2m()\<close> after \<^verbatim>\<open>save(commit=False)\<close>, on the object the caller has
  saved in between.\<close>

definition form_save_m2m :: "form \<Rightarrow> model_instance \<Rightarrow> model_instance list \<Rightarrow> model_instance list" where
  "form_save_m2m f obj tbl =
     (case save_m2m (form_cls f) of
        None \<Rightarrow> tbl
      | Some m2m \<Rightarrow> snd (instance_save (m2m (base_fields (form_cls f)) (cleaned_data f) obj) tbl))"

text \<open>\<^verbatim>\<open>del form_class.base_fields[k]\<close>: Python raises \<^verbatim>\<open>KeyError\<close> when the key is
  not in the dict.\<close>

definition del_base_field :: "string \<Rightarrow> form_class \<Rightarrow> exn + form_class" where
  "del_base_field k fc =
     (if map_of (base_fields fc) k = None then Inl KeyError
      else Inr (fc\<lparr>base_fields := AList.delete k (base_fields fc)\<rparr>))"

subsection \<open>Form synthesis\<close>

definition model_field_dict :: "options \<Rightarrow> (string \<times> field) list" where
  "model_field_dict opts =
     fold (\<lambda>f d. AList.update (name f) f d) (meta_fields opts @ many_to_many opts) []"

definition required_errors :: "(string \<times> field) list \<Rightarrow> dict \<Rightarrow> string list" where
  "required_errors bf d = [n @ '': This field is required.''. (n, f) \<leftarrow> bf, map_of d n = None]"

definition apply_fields :: "string list \<Rightarrow> dict \<Rightarrow> model_instance \<Rightarrow> model_instance" where
  "apply_fields ns d obj =
     fold (\<lambda>n ob. case map_of d n of None \<Rightarrow> ob | Some v \<Rightarrow> setattr ob n v) ns obj"

definition scalar_names :: "options \<Rightarrow> (string \<times> field) list \<Rightarrow> string list" where
  "scalar_names opts bf = [n. (n, f) \<leftarrow> bf, n \<in> set (map name (meta_fields opts))]"

definition m2m_names :: "options \<Rightarrow> (string \<times> field) list \<Rightarrow> string list" where
  "m2m_names opts bf = [n. (n, f) \<leftarrow> bf, n \<in> set (map name (many_to_many opts))]"

text \<open>
  Modelled from the spec: the framework's form synthesizer (\<^verbatim>\<open>django.newforms\<close>,
  \<^verbatim>\<open>form_for_model\<close> and \<^verbatim>\<open>form_for_instance\<close>, and \<^verbatim>\<open>forms.ModelForm\<close>), which the
  repository imports and does not contain. Section 4.2: the form's fields are the
  model's fields, scalar and multi-valued. The synthesized form writes the scalar
  fields it has onto its object and leaves the multi-valued ones to \<^verbatim>\<open>save_m2m\<close>.
\<close>

definition synthesized_form :: "options \<Rightarrow> (string \<times> field) list \<Rightarrow> model_instance \<Rightarrow> form_class" where
  "synthesized_form opts bf obj =
     \<lparr>base_fields = bf,
      clean = required_errors,
      save_obj = (\<lambda>bf d. apply_fields (scalar_names opts bf) d obj),
      save_m2m = Some (\<lambda>bf d ob. apply_fields (m2m_names opts bf) d ob)\<rparr>"

definition form_for_model :: "model \<Rightarrow> form_class" where
  "form_for_model m =
     synthesized_form (meta m) (model_field_dict (meta m))
       \<lparr>inst_meta = meta m, pk = None, attrs = []\<rparr>"

definition form_for_instance :: "model_instance \<Rightarrow> form_class" where
  "form_for_instance obj =
     synthesized_form (inst_meta obj) (model_field_dict (inst_meta obj)) obj"

definition ModelForm :: "options \<Rightarrow> string list \<Rightarrow> form_class" where
  "ModelForm opts exclude =
     synthesized_form opts [(n, f) \<leftarrow> model_field_dict opts. n \<notin> set exclude]
       \<lparr>inst_meta = opts, pk = None, attrs = []\<rparr>"

text \<open>\<^verbatim>\<open>render_to_response(template_name, context, ...)\<close>.\<close>

definition render_to_response :: "string \<Rightarrow> template_context \<Rightarrow> response" where
  "render_to_response template_name ctx = Rendered template_name ctx"

text \<open>\<^verbatim>\<open>login_required(view)\<close>: an anonymous user is sent to the login page and the
  view does not run.\<close>

definition login_required ::
  "(world \<Rightarrow> request \<Rightarrow> (exn + response) \<times> world) \<Rightarrow> world \<Rightarrow> request \<Rightarrow> (exn + response) \<times> world" where
  "login_required view w request =
     (if is_authenticated (req_user request) then view w request
      else (Inr (HttpResponseRedirect LoginUrl), w))"

section \<open>\<^verbatim>\<open>profiles/utils.py\<close>\<close>

text \<open>
  Modelled from the spec: \<^verbatim>\<open>get_profile_model\<close>, which \<^verbatim>\<open>views.py\<close> imports from
  \<^verbatim>\<open>profiles.utils\<close> and the \<^verbatim>\<open>utils.py\<close> at hand does not define. Section 4.1: an
  unset configuration value fails with the "profile not configured" error, and a
  value that does not resolve to a registered model fails with the same error.
\<close>

definition get_profile_model :: "world \<Rightarrow> exn + model" where
  "get_profile_model w =
     (case AUTH_PROFILE_MODULE w of
        None \<Rightarrow> Inl SiteProfileNotAvailable
      | Some label \<Rightarrow>
          (case map_of (installed_models w) label of
             None \<Rightarrow> Inl SiteProfileNotAvailable
           | Some m \<Rightarrow> Inr m))"

text \<open>\<^verbatim>\<open>get_profile_form(user)\<close>: a \<^verbatim>\<open>ModelForm\<close> on the model of \<^verbatim>\<open>user.profile\<close>
  with \<^verbatim>\<open>exclude = ('user',)\<close>.\<close>

definition get_profile_form :: "world \<Rightarrow> user \<Rightarrow> exn + form_class" where
  "get_profile_form w u =
     (case get_profile w u of
        Inl e \<Rightarrow> Inl e
      | Inr profile \<Rightarrow> Inr (ModelForm (inst_meta profile) [''user'']))"

section \<open>\<^verbatim>\<open>profiles/views.py\<close>\<close>

text \<open>Lines 75 to 77 of \<^verbatim>\<open>create_profile\<close>: the form class is synthesized only when
  the caller gave none.\<close>

definition create_form_class :: "world \<Rightarrow> model \<Rightarrow> form_class option \<Rightarrow> (exn + form_class) \<times> world" where
  "create_form_class w profile_model form_class =
     (case form_class of
        None \<Rightarrow> (del_base_field ''user'' (form_for_model profile_model), log CallFormForModel w)
      | Some fc \<Rightarrow> (Inr fc, w))"

text \<open>Lines 78 to 91 of \<^verbatim>\<open>create_profile\<close>: the branch on the request method, the
  validation, the save and the response.\<close>

definition create_process ::
  "world \<Rightarrow> request \<Rightarrow> form_class \<Rightarrow> url \<Rightarrow> string \<Rightarrow> (exn + response) \<times> world" where
  "create_process w request form_class success_url template_name =
     (if req_method request = ''POST'' then
        (let form = \<lparr>form_cls = form_class, form_data = Some (req_POST request), form_initial = None\<rparr>;
             w1 = log CallIsValid (log (CallFormInit (Some (req_POST request)) None) w)
         in if is_valid form then
              (case form_save form False (profiles w1) of
                 (profile_obj, tbl) \<Rightarrow>
                   (let w2 = (log (CallFormSave False) w1)\<lparr>profiles := tbl\<rparr>;
                        profile_obj = setattr profile_obj ''user'' (VUser (req_user request));
                        w3 = log AssignUser w2
                    in (case instance_save profile_obj (profiles w3) of
                          (profile_obj, tbl') \<Rightarrow>
                            (let w4 = (log CallObjSave w3)\<lparr>profiles := tbl'\<rparr>;
                                 w5 = (if hasattr_save_m2m form
                                       then (log CallSaveM2M w4)
                                              \<lparr>profiles := form_save_m2m form profile_obj (profiles w4)\<rparr>
                                       else w4)
                             in (Inr (HttpResponseRedirect success_url), w5)))))
            else (Inr (render_to_response template_name \<lparr>ctx_form = Some form, ctx_profile = None\<rparr>),
                  log CallRender w1))
      else
        (let form = \<lparr>form_cls = form_class, form_data = None, form_initial = None\<rparr>;
             w1 = log (CallFormInit None None) w
         in (Inr (render_to_response template_name \<lparr>ctx_form = Some form, ctx_profile = None\<rparr>),
             log CallRender w1)))"

text \<open>\<^verbatim>\<open>create_profile\<close> before \<^verbatim>\<open>login_required\<close> wraps it (lines 14 to 91).\<close>

definition create_profile_view ::
  "form_class option \<Rightarrow> url option \<Rightarrow> string \<Rightarrow> world \<Rightarrow> request \<Rightarrow> (exn + response) \<times> world" where
  "create_profile_view form_class success_url template_name w request =
     (let w1 = log CallGetProfile w
      in case get_profile w1 (req_user request) of
           Inr profile_obj \<Rightarrow>
             (Inr (HttpResponseRedirect (reverse ''profiles_edit_profile'' [])), w1)
         | Inl e \<Rightarrow>
             (if e \<noteq> ObjectDoesNotExist then (Inl e, w1)
              else
                (let w2 = log CallResolver w1
                 in case get_profile_model w2 of
                      Inl e \<Rightarrow> (Inl e, w2)
                    | Inr profile_model \<Rightarrow>
                        (let success_url =
                               (case success_url of
                                  None \<Rightarrow> reverse ''profiles_profile_detail''
                                            [(''username'', username (req_user request))]
                                | Some u \<Rightarrow> u)
                         in case create_form_class w2 profile_model form_class of
                              (Inl e, w3) \<Rightarrow> (Inl e, w3)
                            | (Inr fc, w3) \<Rightarrow>
                                create_process w3 request fc success_url template_name))))"

text \<open>Line 92: \<^verbatim>\<open>create_profile = login_required(create_profile)\<close>.\<close>

definition create_profile ::
  "world \<Rightarrow> request \<Rightarrow> form_class option \<Rightarrow> url option \<Rightarrow> string \<Rightarrow> (exn + response) \<times> world" where
  "create_profile w request form_class success_url template_name =
     login_required (create_profile_view form_class success_url template_name) w request"

text \<open>\<^verbatim>\<open>f.value_from_object(obj)\<close> reads the field's attribute off the object.\<close>

definition value_from_object :: "field \<Rightarrow> model_instance \<Rightarrow> val" where
  "value_from_object f obj = (case getattr obj (name f) of None \<Rightarrow> VNone | Some v \<Rightarrow> v)"

definition get_initial_data :: "model_instance \<Rightarrow> dict" where
  "get_initial_data profile_obj =
     (let opts = inst_meta profile_obj
      in fold (\<lambda>f data_dict. AList.update (name f) (value_from_object f profile_obj) data_dict)
           (meta_fields opts @ many_to_many opts) [])"

text \<open>Lines 153 to 155 of \<^verbatim>\<open>edit_profile\<close>.\<close>

definition edit_form_class :: "world \<Rightarrow> model_instance \<Rightarrow> form_class option \<Rightarrow> (exn + form_class) \<times> world" where
  "edit_form_class w profile_obj form_class =
     (case form_class of
        None \<Rightarrow> (del_base_field ''user'' (form_for_instance profile_obj), log CallFormForInstance w)
      | Some fc \<Rightarrow> (Inr fc, w))"

text \<open>Lines 156 to 166 of \<^verbatim>\<open>edit_profile\<close>.\<close>

definition edit_process ::
  "world \<Rightarrow> request \<Rightarrow> model_instance \<Rightarrow> form_class \<Rightarrow> url \<Rightarrow> string \<Rightarrow> (exn + response) \<times> world" where
  "edit_process w request profile_obj form_class success_url template_name =
     (if req_method request = ''POST'' then
        (let initial = get_initial_data profile_obj;
             form = \<lparr>form_cls = form_class, form_data = Some (req_POST request),
                     form_initial = Some initial\<rparr>;
             w1 = log CallIsValid (log (CallFormInit (Some (req_POST request)) (Some initial)) w)
         in if is_valid form then
              (let w2 = (log (CallFormSave True) w1)
                          \<lparr>profiles := snd (form_save form True (profiles w1))\<rparr>
               in (Inr (HttpResponseRedirect success_url), w2))
            else (Inr (render_to_response template_name
                         \<lparr>ctx_form = Some form, ctx_profile = Some profile_obj\<rparr>),
                  log CallRender w1))
      else
        (let form = \<lparr>form_cls = form_class, form_data = None, form_initial = None\<rparr>;
             w1 = log (CallFormInit None None) w
         in (Inr (render_to_response template_name
                    \<lparr>ctx_form = Some form, ctx_profile = Some profile_obj\<rparr>),
             log CallRender w1)))"

text \<open>\<^verbatim>\<open>edit_profile\<close> before \<^verbatim>\<open>login_required\<close> wraps it (lines 106 to 166).\<close>

definition edit_profile_view ::
  "form_class option \<Rightarrow> url option \<Rightarrow> string \<Rightarrow> world \<Rightarrow> request \<Rightarrow> (exn + response) \<times> world" where
  "edit_profile_view form_class success_url template_name w request =
     (let w1 = log CallGetProfile w
      in case get_profile w1 (req_user request) of
           Inl e \<Rightarrow>
             (if e = ObjectDoesNotExist
              then (Inr (HttpResponseRedirect (reverse ''profiles_create_profile'' [])), w1)
              else (Inl e, w1))
         | Inr profile_obj \<Rightarrow>
             (let success_url =
                    (case success_url of
                       None \<Rightarrow> reverse ''profiles_profile_detail''
                                 [(''username'', username (req_user request))]
                     | Some u \<Rightarrow> u)
              in case edit_form_class w1 profile_obj form_class of
                   (Inl e, w2) \<Rightarrow> (Inl e, w2)
                 | (Inr fc, w2) \<Rightarrow>
                     edit_process w2 request profile_obj fc success_url template_name))"

text \<open>Line 167: \<^verbatim>\<open>edit_profile = login_required(edit_profile)\<close>.\<close>

definition edit_profile ::
  "world \<Rightarrow> request \<Rightarrow> form_class option \<Rightarrow> url option \<Rightarrow> string \<Rightarrow> (exn + response) \<times> world" where
  "edit_profile w request form_class success_url template_name =
     login_required (edit_profile_view form_class success_url template_name) w request"

text \<open>\<^verbatim>\<open>profile_detail\<close> (lines 169 to 199) is not wrapped.\<close>

definition profile_detail :: "world \<Rightarrow> request \<Rightarrow> string \<Rightarrow> string \<Rightarrow> (exn + response) \<times> world" where
  "profile_detail w request uname template_name =
     (case get_object_or_404 w uname of
        Inl e \<Rightarrow> (Inl e, w)
      | Inr u \<Rightarrow>
          (let w1 = log CallGetProfile w
           in case get_profile w1 u of
                Inl e \<Rightarrow> (if e = ObjectDoesNotExist then (Inl Http404, w1) else (Inl e, w1))
              | Inr profile_obj \<Rightarrow>
                  (Inr (render_to_response template_name
                          \<lparr>ctx_form = None, ctx_profile = Some profile_obj\<rparr>),
                   log CallRender w1)))"

section \<open>A small site\<close>

text \<open>A concrete site on which the handlers are run: a profile model with the
  fields \<^verbatim>\<open>id\<close>, \<^verbatim>\<open>user\<close> and \<^verbatim>\<open>city\<close> and the many-to-many field \<^verbatim>\<open>groups\<close>;
  \<^verbatim>\<open>bob\<close> has a profile, \<^verbatim>\<open>alice\<close> has none.\<close>

definition alice :: user where
  "alice = \<lparr>uid = 1, username = ''alice'', is_authenticated = True\<rparr>"

definition bob :: user where
  "bob = \<lparr>uid = 2, username = ''bob'', is_authenticated = True\<rparr>"

definition profile_opts :: options where
  "profile_opts =
     \<lparr>meta_fields = [\<lparr>name = ''id''\<rparr>, \<lparr>name = ''user''\<rparr>, \<lparr>name = ''city''\<rparr>],
      many_to_many = [\<lparr>name = ''groups''\<rparr>]\<rparr>"

definition site_profile :: model where
  "site_profile = \<lparr>model_label = ''site.Profile'', meta = profile_opts\<rparr>"

definition bob_profile :: model_instance where
  "bob_profile =
     \<lparr>inst_meta = profile_opts, pk = Some 1,
      attrs = [(''id'', VInt 1), (''user'', VUser bob), (''city'', VStr ''Oslo'')]\<rparr>"

definition site :: world where
  "site =
     \<lparr>AUTH_PROFILE_MODULE = Some ''site.Profile'',
      installed_models = [(''site.Profile'', site_profile)],
      users = [alice, bob],
      profiles = [bob_profile],
      calls = []\<rparr>"

definition site_unconfigured :: world where
  "site_unconfigured = site\<lparr>AUTH_PROFILE_MODULE := None\<rparr>"

definition site_unresolved :: world where
  "site_unresolved = site\<lparr>AUTH_PROFILE_MODULE := Some ''site.Missing''\<rparr>"

text \<open>A caller's own form class, with the one field \<^verbatim>\<open>city\<close> and no
  \<^verbatim>\<open>save_m2m\<close>.\<close>

definition city_form :: form_class where
  "city_form =
     \<lparr>base_fields = [(''city'', \<lparr>name = ''city''\<rparr>)],
      clean = required_errors,
      save_obj = (\<lambda>bf d. apply_fields (map fst bf) d
                    \<lparr>inst_meta = profile_opts, pk = None, attrs = []\<rparr>),
      save_m2m = None\<rparr>"

definition get_request :: "user \<Rightarrow> request" where
  "get_request u = \<lparr>req_user = u, req_method = ''GET'', req_POST = []\<rparr>"

definition post_request :: "user \<Rightarrow> dict \<Rightarrow> request" where
  "post_request u d = \<lparr>req_user = u, req_method = ''POST'', req_POST = d\<rparr>"

text \<open>A visitor who is not logged in.\<close>

definition anonymous :: user where
  "anonymous = \<lparr>uid = 0, username = '''', is_authenticated = False\<rparr>"

text \<open>The form class that \<^verbatim>\<open>create_profile\<close> synthesizes on this site, and a complete
  submission for it.\<close>

definition site_form :: form_class where
  "site_form =
     (form_for_model site_profile)
       \<lparr>base_fields := AList.delete ''user'' (base_fields (form_for_model site_profile))\<rparr>"

definition rome :: dict where
  "rome = [(''id'', VInt 7), (''city'', VStr ''Rome''), (''groups'', VList [VInt 3])]"

text \<open>The form class that \<^verbatim>\<open>edit_profile\<close> synthesizes for \<^verbatim>\<open>bob\<close>'s profile.\<close>

definition bob_form :: form_class where
  "bob_form =
     (form_for_instance bob_profile)
       \<lparr>base_fields := AList.delete ''user'' (base_fields (form_for_instance bob_profile))\<rparr>"

section \<open>Basic facts\<close>

lemma calls_log: "calls (log c w) = calls w @ [c]"
  by (simp add: log_def)

lemma profiles_log: "profiles (log c w) = profiles w"
  by (simp add: log_def)

lemma get_profile_log: "get_profile (log c w) u = get_profile w u"
  by (simp add: get_profile_def log_def split: option.splits)

lemma get_profile_model_log: "get_profile_model (log c w) = get_profile_model w"
  by (simp add: get_profile_model_def log_def split: option.splits)

lemma log_settings:
  "AUTH_PROFILE_MODULE (log c w) = AUTH_PROFILE_MODULE w"
  "installed_models (log c w) = installed_models w"
  by (simp_all add: log_def)

lemma create_form_class_settings:
  "AUTH_PROFILE_MODULE (snd (create_form_class w m fco)) = AUTH_PROFILE_MODULE w"
  "installed_models (snd (create_form_class w m fco)) = installed_models w"
  by (simp_all add: create_form_class_def log_settings split: option.splits)


lemma create_process_settings:
  "AUTH_PROFILE_MODULE (snd (create_process w request fc su tn)) = AUTH_PROFILE_MODULE w"
  "installed_models (snd (create_process w request fc su tn)) = installed_models w"
  by (simp_all add: create_process_def Let_def log_settings split: prod.splits)


lemma form_save_nocommit:
  "form_save f False tbl = (save_obj (form_cls f) (base_fields (form_cls f)) (cleaned_data f), tbl)"
  by (simp add: form_save_def Let_def)

lemma create_process_calls:
  "\<exists>xs. calls (snd (create_process w request fc su tn)) = calls w @ xs
     \<and> CallResolver \<notin> set xs \<and> CallFormForModel \<notin> set xs \<and> CallGetProfile \<notin> set xs"
  by (auto simp: create_process_def Let_def calls_log form_save_nocommit split: prod.splits)

lemma create_profile_view_no_profile:
  assumes "get_profile w (req_user request) = Inl ObjectDoesNotExist"
  shows "create_profile_view fco su tn w request =
     (case get_profile_model w of
        Inl e \<Rightarrow> (Inl e, log CallResolver (log CallGetProfile w))
      | Inr m \<Rightarrow>
         (case create_form_class (log CallResolver (log CallGetProfile w)) m fco of
            (Inl e, w3) \<Rightarrow> (Inl e, w3)
          | (Inr fc, w3) \<Rightarrow>
              create_process w3 request fc
                (case su of
                   None \<Rightarrow> reverse ''profiles_profile_detail''
                             [(''username'', username (req_user request))]
                 | Some u \<Rightarrow> u) tn))"
  using assms
  by (simp add: create_profile_view_def Let_def get_profile_log get_profile_model_log
      split: sum.splits)

section \<open>The resolver in \<^verbatim>\<open>create_profile\<close>\<close>

text \<open>
  C1, as the specification states it: when the caller gives a form class,
  \<^verbatim>\<open>create_profile\<close> does not call the resolver. On the site above, a POST by
  \<^verbatim>\<open>alice\<close> with the caller's own \<^verbatim>\<open>city_form\<close> calls the resolver second, right after
  the profile lookup and before the form is instantiated.
\<close>

theorem create_profile_resolver_with_form_class:
  "new_calls site
     (snd (create_profile site (post_request alice [(''city'', VStr ''Rome'')])
             (Some city_form) None ''profiles/create_profile.html''))
   = [CallGetProfile, CallResolver, CallFormInit (Some [(''city'', VStr ''Rome'')]) None,
      CallIsValid, CallFormSave False, AssignUser, CallObjSave]"
  by code_simp

text \<open>
  C1, amended: for every request of an authenticated user who has no profile,
  \<^verbatim>\<open>create_profile\<close> calls the resolver exactly once, right after the profile
  lookup, whether or not a form class was given. What depends on the form class is
  the synthesis: \<^verbatim>\<open>form_for_model\<close> is called exactly when no form class was given
  and the resolver returned a model.
\<close>

theorem create_profile_resolver_always:
  assumes "is_authenticated (req_user request)"
    and "get_profile w (req_user request) = Inl ObjectDoesNotExist"
  shows "\<exists>rest. new_calls w (snd (create_profile w request form_class success_url template_name))
            = CallGetProfile # CallResolver # rest
          \<and> CallResolver \<notin> set rest
          \<and> (CallFormForModel \<in> set rest
               \<longleftrightarrow> form_class = None \<and> (\<exists>m. get_profile_model w = Inr m))"
proof (cases "get_profile_model w")
  case (Inl e)
  then show ?thesis using assms
    by (simp add: create_profile_def login_required_def create_profile_view_no_profile
        new_calls_def calls_log)
next
  case (Inr m)
  let ?w2 = "log CallResolver (log CallGetProfile w)"
  let ?su = "case success_url of
               None \<Rightarrow> reverse ''profiles_profile_detail''
                         [(''username'', username (req_user request))]
             | Some u \<Rightarrow> u"
  show ?thesis
  proof (cases form_class)
    case None
    show ?thesis
    proof (cases "del_base_field ''user'' (form_for_model m)")
      case (Inl e)
      then show ?thesis using assms \<open>get_profile_model w = Inr m\<close> None
        by (simp add: create_profile_def login_required_def create_profile_view_no_profile
            new_calls_def calls_log create_form_class_def)
    next
      case (Inr fc)
      obtain xs where
        "calls (snd (create_process (log CallFormForModel ?w2) request fc ?su template_name))
           = calls (log CallFormForModel ?w2) @ xs"
        and "CallResolver \<notin> set xs"
        using create_process_calls by blast
      then show ?thesis using assms \<open>get_profile_model w = Inr m\<close> None Inr
        by (simp add: create_profile_def login_required_def create_profile_view_no_profile
            new_calls_def calls_log create_form_class_def)
    qed
  next
    case (Some fc)
    obtain xs where
      "calls (snd (create_process ?w2 request fc ?su template_name)) = calls ?w2 @ xs"
      and "CallResolver \<notin> set xs" and "CallFormForModel \<notin> set xs"
      using create_process_calls by blast
    then show ?thesis using assms Inr Some
      by (simp add: create_profile_def login_required_def create_profile_view_no_profile
          new_calls_def calls_log create_form_class_def)
  qed
qed

theorem create_profile_resolver_always_witness:
  "is_authenticated (req_user (post_request alice [(''city'', VStr ''Rome'')]))
   \<and> get_profile site (req_user (post_request alice [(''city'', VStr ''Rome'')]))
       = Inl ObjectDoesNotExist
   \<and> take 2 (new_calls site
         (snd (create_profile site (post_request alice [(''city'', VStr ''Rome'')])
                 (Some city_form) None ''profiles/create_profile.html'')))
       = [CallGetProfile, CallResolver]
   \<and> CallFormForModel \<notin> set (new_calls site
         (snd (create_profile site (post_request alice [(''city'', VStr ''Rome'')])
                 (Some city_form) None ''profiles/create_profile.html'')))"
proof -
  have a: "is_authenticated (req_user (post_request alice [(''city'', VStr ''Rome'')]))"
    by code_simp
  have b: "get_profile site (req_user (post_request alice [(''city'', VStr ''Rome'')]))
             = Inl ObjectDoesNotExist"
    by code_simp
  from create_profile_resolver_always
         [OF a b, of "Some city_form" None "''profiles/create_profile.html''"]
  show ?thesis using a b by auto
qed

lemma get_profile_no_row:
  assumes "get_profile_model w = Inr m"
    and "\<forall>p \<in> set (profiles w). \<not> owned_by u p"
  shows "get_profile w u = Inl ObjectDoesNotExist"
proof -
  from assms(2) have "find (owned_by u) (profiles w) = None"
    by (simp add: find_None_iff)
  with assms(1) show ?thesis
    by (auto simp: get_profile_def get_profile_model_def split: option.splits)
qed

lemma get_profile_Inl:
  "get_profile w u = Inl e \<Longrightarrow> e = ObjectDoesNotExist \<or> e = SiteProfileNotAvailable"
  by (auto simp: get_profile_def split: option.splits)


lemma get_profile_after:
  assumes "get_profile w u \<noteq> Inl SiteProfileNotAvailable"
    and "AUTH_PROFILE_MODULE w' = AUTH_PROFILE_MODULE w"
    and "installed_models w' = installed_models w"
    and "find (owned_by u) (profiles w') = Some r"
  shows "get_profile w' u = Inr r"
  using assms by (auto simp: get_profile_def split: option.splits)

section \<open>Users who already have a profile\<close>

text \<open>
  C2: for every authenticated user who has a profile, as \<^verbatim>\<open>request.user.get_profile()\<close>
  determines it, \<^verbatim>\<open>create_profile\<close> returns a redirect to the edit route whatever the
  request method, the form class and the success URL are; the profile table is
  unchanged, and the only call made is the profile lookup: no form is built and
  nothing is saved.
\<close>

theorem create_profile_existing_profile:
  assumes "is_authenticated (req_user request)"
    and "get_profile w (req_user request) = Inr p"
  shows "fst (create_profile w request form_class success_url template_name)
           = Inr (HttpResponseRedirect (reverse ''profiles_edit_profile'' []))
       \<and> profiles (snd (create_profile w request form_class success_url template_name)) = profiles w
       \<and> new_calls w (snd (create_profile w request form_class success_url template_name))
           = [CallGetProfile]"
  using assms
  by (simp add: create_profile_def login_required_def create_profile_view_def Let_def
      get_profile_log new_calls_def calls_log profiles_log)

theorem create_profile_existing_profile_witness:
  "is_authenticated (req_user (post_request bob [(''city'', VStr ''Rome'')]))
   \<and> get_profile site (req_user (post_request bob [(''city'', VStr ''Rome'')])) = Inr bob_profile
   \<and> fst (create_profile site (post_request bob [(''city'', VStr ''Rome'')]) None None
            ''profiles/create_profile.html'')
       = Inr (HttpResponseRedirect (Reverse ''profiles_edit_profile'' []))
   \<and> fst (create_profile site (get_request bob) None None ''profiles/create_profile.html'')
       = Inr (HttpResponseRedirect (Reverse ''profiles_edit_profile'' []))
   \<and> profiles (snd (create_profile site (post_request bob [(''city'', VStr ''Rome'')]) None None
            ''profiles/create_profile.html'')) = [bob_profile]"
proof -
  have a: "is_authenticated (req_user (post_request bob [(''city'', VStr ''Rome'')]))"
    by code_simp
  have b: "get_profile site (req_user (post_request bob [(''city'', VStr ''Rome'')])) = Inr bob_profile"
    by code_simp
  have a': "is_authenticated (req_user (get_request bob))"
    by code_simp
  have b': "get_profile site (req_user (get_request bob)) = Inr bob_profile"
    by code_simp
  have d: "profiles site = [bob_profile]" by (simp add: site_def)
  from create_profile_existing_profile [OF a b, of None None "''profiles/create_profile.html''"]
    create_profile_existing_profile [OF a' b', of None None "''profiles/create_profile.html''"]
  show ?thesis using a b d by (simp add: reverse_def)
qed

section \<open>Editing without a profile\<close>

text \<open>
  C5: for every authenticated user without a profile, as \<^verbatim>\<open>User.get_profile()\<close>
  determines it by raising \<^verbatim>\<open>ObjectDoesNotExist\<close>, \<^verbatim>\<open>edit_profile\<close> returns a redirect
  to the create route whatever the request method is; the only call made is the
  profile lookup, so no form is built and no data is validated or saved, and the
  profile table is unchanged.
\<close>

theorem edit_profile_no_profile:
  assumes "is_authenticated (req_user request)"
    and "get_profile w (req_user request) = Inl ObjectDoesNotExist"
  shows "fst (edit_profile w request form_class success_url template_name)
           = Inr (HttpResponseRedirect (reverse ''profiles_create_profile'' []))
       \<and> profiles (snd (edit_profile w request form_class success_url template_name)) = profiles w
       \<and> new_calls w (snd (edit_profile w request form_class success_url template_name))
           = [CallGetProfile]"
  using assms
  by (simp add: edit_profile_def login_required_def edit_profile_view_def Let_def
      get_profile_log new_calls_def calls_log profiles_log)

theorem edit_profile_no_profile_witness:
  "is_authenticated (req_user (post_request alice [(''city'', VStr ''Rome'')]))
   \<and> get_profile site (req_user (post_request alice [(''city'', VStr ''Rome'')]))
       = Inl ObjectDoesNotExist
   \<and> fst (edit_profile site (post_request alice [(''city'', VStr ''Rome'')]) None None
            ''profiles/edit_profile.html'')
       = Inr (HttpResponseRedirect (Reverse ''profiles_create_profile'' []))
   \<and> fst (edit_profile site (get_request alice) None None ''profiles/edit_profile.html'')
       = Inr (HttpResponseRedirect (Reverse ''profiles_create_profile'' []))
   \<and> new_calls site (snd (edit_profile site (post_request alice [(''city'', VStr ''Rome'')]) None None
            ''profiles/edit_profile.html'')) = [CallGetProfile]"
proof -
  have a: "is_authenticated (req_user (post_request alice [(''city'', VStr ''Rome'')]))"
    by code_simp
  have b: "get_profile site (req_user (post_request alice [(''city'', VStr ''Rome'')]))
             = Inl ObjectDoesNotExist"
    by code_simp
  have a': "is_authenticated (req_user (get_request alice))"
    by code_simp
  have b': "get_profile site (req_user (get_request alice)) = Inl ObjectDoesNotExist"
    by code_simp
  from edit_profile_no_profile [OF a b, of None None "''profiles/edit_profile.html''"]
    edit_profile_no_profile [OF a' b', of None None "''profiles/edit_profile.html''"]
  show ?thesis using a b by (simp add: reverse_def)
qed

lemma get_object_or_404_none_iff:
  "get_object_or_404 w un = Inl Http404 \<longleftrightarrow> (\<forall>u \<in> set (users w). username u \<noteq> un)"
proof (cases "find (\<lambda>u. username u = un) (users w)")
  case None
  then have "\<forall>u \<in> set (users w). username u \<noteq> un"
    by (simp add: find_None_iff)
  with None show ?thesis by (simp add: get_object_or_404_def)
next
  case (Some q)
  then have "q \<in> set (users w) \<and> username q = un"
    by (auto simp: find_Some_iff)
  with Some show ?thesis by (auto simp: get_object_or_404_def)
qed

section \<open>The detail view\<close>

text \<open>
  What \<^verbatim>\<open>profile_detail\<close> makes of its two lookups: an unknown username is
  \<^verbatim>\<open>Http404\<close>; \<^verbatim>\<open>ObjectDoesNotExist\<close> from \<^verbatim>\<open>get_profile()\<close> is turned into \<^verbatim>\<open>Http404\<close>;
  a profile is rendered; and \<^verbatim>\<open>SiteProfileNotAvailable\<close> from \<^verbatim>\<open>get_profile()\<close>, which
  the \<^verbatim>\<open>except ObjectDoesNotExist\<close> clause does not catch, leaves the view as it is.
  Nothing is required of the requesting user, and apart from the record of calls the
  world returned is the world given.
\<close>

lemma profile_detail_results:
  "((\<forall>u \<in> set (users w). username u \<noteq> uname)
      \<longrightarrow> fst (profile_detail w request uname template_name) = Inl Http404)
   \<and> (\<forall>u. get_object_or_404 w uname = Inr u \<and> get_profile w u = Inl ObjectDoesNotExist
      \<longrightarrow> fst (profile_detail w request uname template_name) = Inl Http404)
   \<and> (\<forall>u p. get_object_or_404 w uname = Inr u \<and> get_profile w u = Inr p
      \<longrightarrow> fst (profile_detail w request uname template_name)
            = Inr (Rendered template_name \<lparr>ctx_form = None, ctx_profile = Some p\<rparr>))
   \<and> (\<forall>u. get_object_or_404 w uname = Inr u \<and> get_profile w u = Inl SiteProfileNotAvailable
      \<longrightarrow> fst (profile_detail w request uname template_name) = Inl SiteProfileNotAvailable)
   \<and> (snd (profile_detail w request uname template_name))\<lparr>calls := calls w\<rparr> = w"
proof (intro conjI impI allI)
  assume "\<forall>u \<in> set (users w). username u \<noteq> uname"
  then have "get_object_or_404 w uname = Inl Http404"
    by (simp add: get_object_or_404_none_iff)
  then show "fst (profile_detail w request uname template_name) = Inl Http404"
    by (simp add: profile_detail_def)
next
  fix u
  assume "get_object_or_404 w uname = Inr u \<and> get_profile w u = Inl ObjectDoesNotExist"
  then show "fst (profile_detail w request uname template_name) = Inl Http404"
    by (simp add: profile_detail_def Let_def get_profile_log)
next
  fix u p
  assume "get_object_or_404 w uname = Inr u \<and> get_profile w u = Inr p"
  then show "fst (profile_detail w request uname template_name)
            = Inr (Rendered template_name \<lparr>ctx_form = None, ctx_profile = Some p\<rparr>)"
    by (simp add: profile_detail_def Let_def get_profile_log render_to_response_def)
next
  fix u
  assume "get_object_or_404 w uname = Inr u \<and> get_profile w u = Inl SiteProfileNotAvailable"
  then show "fst (profile_detail w request uname template_name) = Inl SiteProfileNotAvailable"
    by (simp add: profile_detail_def Let_def get_profile_log)
next
  show "(snd (profile_detail w request uname template_name))\<lparr>calls := calls w\<rparr> = w"
    by (simp add: profile_detail_def Let_def get_profile_log log_def split: sum.splits)
qed

text \<open>
  C8: the claim, and the docstring of \<^verbatim>\<open>profile_detail\<close> (lines 173 to 175: \<^verbatim>\<open>Http404\<close>
  when no profile model is specified or the user has not created a profile), give
  \<^verbatim>\<open>Http404\<close> for a user who exists and has no profile. On the site whose
  \<^verbatim>\<open>AUTH_PROFILE_MODULE\<close> is unset, \<^verbatim>\<open>alice\<close> exists and has no profile, and the view
  ends with \<^verbatim>\<open>SiteProfileNotAvailable\<close> instead; so it does for \<^verbatim>\<open>bob\<close>, and on the
  site whose setting names no installed model.
\<close>

theorem profile_detail_unconfigured:
  "get_object_or_404 site_unconfigured ''alice'' = Inr alice
   \<and> filter (owned_by alice) (profiles site_unconfigured) = []
   \<and> fst (profile_detail site_unconfigured (get_request anonymous) ''alice''
            ''profiles/profile_detail.html'') = Inl SiteProfileNotAvailable
   \<and> fst (profile_detail site_unconfigured (get_request anonymous) ''bob''
            ''profiles/profile_detail.html'') = Inl SiteProfileNotAvailable
   \<and> fst (profile_detail site_unresolved (get_request anonymous) ''alice''
            ''profiles/profile_detail.html'') = Inl SiteProfileNotAvailable"
proof -
  let ?t = "''profiles/profile_detail.html''" and ?r = "get_request anonymous"
  have u1: "get_object_or_404 site_unconfigured ''alice'' = Inr alice" by code_simp
  have u2: "get_object_or_404 site_unconfigured ''bob'' = Inr bob" by code_simp
  have u3: "get_object_or_404 site_unresolved ''alice'' = Inr alice" by code_simp
  have f: "filter (owned_by alice) (profiles site_unconfigured) = []" by code_simp
  have g1: "get_profile site_unconfigured alice = Inl SiteProfileNotAvailable" by code_simp
  have g2: "get_profile site_unconfigured bob = Inl SiteProfileNotAvailable" by code_simp
  have g3: "get_profile site_unresolved alice = Inl SiteProfileNotAvailable" by code_simp
  from profile_detail_results [of site_unconfigured "''alice''" ?r ?t] u1 g1
  have r1: "fst (profile_detail site_unconfigured ?r ''alice'' ?t) = Inl SiteProfileNotAvailable"
    by blast
  from profile_detail_results [of site_unconfigured "''bob''" ?r ?t] u2 g2
  have r2: "fst (profile_detail site_unconfigured ?r ''bob'' ?t) = Inl SiteProfileNotAvailable"
    by blast
  from profile_detail_results [of site_unresolved "''alice''" ?r ?t] u3 g3
  have r3: "fst (profile_detail site_unresolved ?r ''alice'' ?t) = Inl SiteProfileNotAvailable"
    by blast
  from u1 f r1 r2 r3 show ?thesis by blast
qed

section \<open>Objects and tables\<close>

lemma getattr_setattr: "getattr (setattr obj n v) n' = (if n' = n then Some v else getattr obj n')"
  by (simp add: getattr_def setattr_def update_conv')

lemma pk_setattr: "pk (setattr obj n v) = pk obj"
  by (simp add: setattr_def)

lemma inst_meta_setattr: "inst_meta (setattr obj n v) = inst_meta obj"
  by (simp add: setattr_def)

lemma instance_save_attrs: "attrs (fst (instance_save obj tbl)) = attrs obj"
  by (simp add: instance_save_def Let_def split: option.splits)

lemma instance_save_getattr: "getattr (fst (instance_save obj tbl)) n = getattr obj n"
  by (simp add: getattr_def instance_save_attrs)

lemma instance_save_pk: "\<exists>k. pk (fst (instance_save obj tbl)) = Some k"
  by (simp add: instance_save_def Let_def split: option.splits)

lemma instance_save_pk_kept: "pk obj = Some k \<Longrightarrow> fst (instance_save obj tbl) = obj"
  by (simp add: instance_save_def)

lemma instance_save_mem: "fst (instance_save obj tbl) \<in> set (snd (instance_save obj tbl))"
  by (auto simp: instance_save_def Let_def split: option.splits)

lemma instance_save_rows:
  "r \<in> set (snd (instance_save obj tbl)) \<Longrightarrow> r = fst (instance_save obj tbl) \<or> r \<in> set tbl"
proof (cases "pk obj")
  case None
  then show "r \<in> set (snd (instance_save obj tbl)) \<Longrightarrow> ?thesis"
    by (auto simp: instance_save_def Let_def)
next
  case (Some k)
  show "r \<in> set (snd (instance_save obj tbl)) \<Longrightarrow> ?thesis"
  proof (cases "\<exists>r \<in> set tbl. pk r = Some k")
    case True
    assume "r \<in> set (snd (instance_save obj tbl))"
    with Some True have "r \<in> (\<lambda>r. if pk r = Some k then obj else r) ` set tbl"
      by (simp add: instance_save_def)
    then obtain q where "q \<in> set tbl" and "r = (if pk q = Some k then obj else q)" by blast
    then have "r = obj \<or> r \<in> set tbl" by (cases "pk q = Some k") simp_all
    with Some show ?thesis by (simp add: instance_save_pk_kept)
  next
    case False
    assume "r \<in> set (snd (instance_save obj tbl))"
    with Some False show ?thesis by (auto simp: instance_save_def)
  qed
qed

lemma instance_save_replaces:
  assumes "pk obj = Some k" and "r \<in> set (snd (instance_save obj tbl))" and "pk r = Some k"
  shows "r = obj"
proof (cases "\<exists>r \<in> set tbl. pk r = Some k")
  case True
  with assms(1,2) have "r \<in> (\<lambda>r. if pk r = Some k then obj else r) ` set tbl"
    by (simp add: instance_save_def)
  then obtain q where "q \<in> set tbl" and r: "r = (if pk q = Some k then obj else q)" by blast
  show ?thesis
  proof (cases "pk q = Some k")
    case True with r show ?thesis by simp
  next
    case False with r assms(3) show ?thesis by simp
  qed
next
  case False
  with assms(1,2) have "r = obj \<or> r \<in> set tbl" by (auto simp: instance_save_def)
  with False assms(3) show ?thesis by blast
qed

lemma find_unique:
  assumes "x \<in> set xs" and "P x" and "\<forall>y \<in> set xs. P y \<longrightarrow> y = x"
  shows "find P xs = Some x"
  using assms
proof (induction xs)
  case Nil
  then show ?case by simp
next
  case (Cons a xs)
  show ?case
  proof (cases "P a")
    case True
    with Cons.prems(3) have "a = x" by simp
    with True show ?thesis by simp
  next
    case False
    with Cons.prems(1,2) have "x \<in> set xs" by auto
    moreover from Cons.prems(3) have "\<forall>y \<in> set xs. P y \<longrightarrow> y = x" by simp
    ultimately have "find P xs = Some x" using Cons.IH Cons.prems(2) by blast
    with False show ?thesis by simp
  qed
qed

lemma owned_by_user_attr: "getattr r ''user'' = Some (VUser u) \<Longrightarrow> owned_by u r"
  by (simp add: owned_by_def)

text \<open>The profile table after the save path of \<^verbatim>\<open>create_profile\<close>: the object with the
  user assigned is saved, then the optional follow-up stores it once more.\<close>

lemma create_saved_table:
  assumes nop: "\<forall>p \<in> set tbl. \<not> owned_by u p"
    and keeps: "\<And>h ob. hook = Some h \<Longrightarrow> getattr (h ob) ''user'' = getattr ob ''user'' \<and> pk (h ob) = pk ob"
    and tbl2: "instance_save (setattr obj0 ''user'' (VUser u)) tbl = (obj2, tbl2)"
    and T: "T = (case hook of None \<Rightarrow> tbl2 | Some h \<Rightarrow> snd (instance_save (h obj2) tbl2))"
  shows "\<exists>r. find (owned_by u) T = Some r \<and> getattr r ''user'' = Some (VUser u)"
proof -
  from tbl2 have obj2: "obj2 = fst (instance_save (setattr obj0 ''user'' (VUser u)) tbl)"
    and tbl2': "tbl2 = snd (instance_save (setattr obj0 ''user'' (VUser u)) tbl)" by simp_all
  have u2: "getattr obj2 ''user'' = Some (VUser u)"
    by (simp add: obj2 instance_save_getattr getattr_setattr)
  have mem2: "obj2 \<in> set tbl2" by (simp add: obj2 tbl2' instance_save_mem)
  have rows2: "\<And>r. r \<in> set tbl2 \<Longrightarrow> r = obj2 \<or> r \<in> set tbl"
    using instance_save_rows [of _ "setattr obj0 ''user'' (VUser u)" tbl] by (simp add: obj2 tbl2')
  obtain k where k: "pk obj2 = Some k" using instance_save_pk [of "setattr obj0 ''user'' (VUser u)" tbl]
    by (auto simp: obj2)
  show ?thesis
  proof (cases hook)
    case None
    have "find (owned_by u) tbl2 = Some obj2"
    proof (rule find_unique)
      show "obj2 \<in> set tbl2" by (rule mem2)
      show "owned_by u obj2" using u2 by (rule owned_by_user_attr)
      show "\<forall>y \<in> set tbl2. owned_by u y \<longrightarrow> y = obj2" using rows2 nop by blast
    qed
    with None T u2 show ?thesis by simp
  next
    case (Some h)
    let ?o3 = "h obj2"
    have h3: "getattr ?o3 ''user'' = Some (VUser u)" and pk3: "pk ?o3 = Some k"
      using keeps [OF Some, of obj2] u2 k by simp_all
    have fst3: "fst (instance_save ?o3 tbl2) = ?o3" using pk3 by (rule instance_save_pk_kept)
    have "find (owned_by u) (snd (instance_save ?o3 tbl2)) = Some ?o3"
    proof (rule find_unique)
      show "?o3 \<in> set (snd (instance_save ?o3 tbl2))"
        using instance_save_mem [of ?o3 tbl2] by (simp add: fst3)
      show "owned_by u ?o3" using h3 by (rule owned_by_user_attr)
      show "\<forall>y \<in> set (snd (instance_save ?o3 tbl2)). owned_by u y \<longrightarrow> y = ?o3"
      proof (intro ballI impI)
        fix y assume y: "y \<in> set (snd (instance_save ?o3 tbl2))" and oy: "owned_by u y"
        show "y = ?o3"
        proof (rule ccontr)
          assume ne: "y \<noteq> ?o3"
          with y have "y \<in> set tbl2" using instance_save_rows [of y ?o3 tbl2] by (simp add: fst3)
          then have "y = obj2 \<or> y \<in> set tbl" by (rule rows2)
          with oy nop have "y = obj2" by blast
          then have "pk y = Some k" using k by simp
          with pk3 y have "y = ?o3" by (rule instance_save_replaces)
          with ne show False by simp
        qed
      qed
    qed
    with Some T h3 show ?thesis by simp
  qed
qed

lemma apply_fields_pk: "pk (apply_fields ns d ob) = pk ob"
  unfolding apply_fields_def
  by (induction ns arbitrary: ob) (simp_all add: pk_setattr split: option.splits)

lemma apply_fields_getattr_other:
  "n \<notin> set ns \<Longrightarrow> getattr (apply_fields ns d ob) n = getattr ob n"
  unfolding apply_fields_def
  by (induction ns arbitrary: ob) (simp_all add: getattr_setattr split: option.splits)

lemma m2m_names_subset: "set (m2m_names opts bf) \<subseteq> fst ` set bf"
  by (force simp: m2m_names_def)


lemma keys_delete: "fst ` set (AList.delete k al) = fst ` set al - {k}"
  by (induction al) (auto simp: AList.delete_eq)

lemma del_base_field_Inr:
  "del_base_field k fc = Inr fc' \<Longrightarrow>
     base_fields fc' = AList.delete k (base_fields fc) \<and> clean fc' = clean fc
     \<and> save_obj fc' = save_obj fc \<and> save_m2m fc' = save_m2m fc"
  by (auto simp: del_base_field_def split: if_splits)

lemma synthesized_m2m_keeps:
  assumes "del_base_field ''user'' (synthesized_form opts bf0 base) = Inr fc"
    and "save_m2m fc = Some h"
  shows "getattr (h (base_fields fc) d ob) ''user'' = getattr ob ''user''
       \<and> pk (h (base_fields fc) d ob) = pk ob"
proof -
  from del_base_field_Inr [OF assms(1)]
  have bf: "base_fields fc = AList.delete ''user'' bf0"
    and h: "save_m2m fc = Some (\<lambda>bf d ob. apply_fields (m2m_names opts bf) d ob)"
    by (simp_all add: synthesized_form_def)
  from h assms(2) have hdef: "h = (\<lambda>bf d ob. apply_fields (m2m_names opts bf) d ob)" by simp
  have "''user'' \<notin> fst ` set (AList.delete ''user'' bf0)" by (simp add: keys_delete)
  then have "''user'' \<notin> set (m2m_names opts (base_fields fc))"
    using m2m_names_subset [of opts "base_fields fc"] bf by auto
  then show ?thesis by (simp add: hdef apply_fields_getattr_other apply_fields_pk)
qed

lemma create_process_valid:
  assumes "req_method request = ''POST''"
    and "is_valid \<lparr>form_cls = fc, form_data = Some (req_POST request), form_initial = None\<rparr>"
  shows "fst (create_process w request fc su tn) = Inr (HttpResponseRedirect su)"
    and "calls (snd (create_process w request fc su tn))
          = calls w @ [CallFormInit (Some (req_POST request)) None, CallIsValid,
                       CallFormSave False, AssignUser, CallObjSave]
              @ (if save_m2m fc = None then [] else [CallSaveM2M])"
    and "profiles (snd (create_process w request fc su tn))
          = (case instance_save
                    (setattr (save_obj fc (base_fields fc) (req_POST request)) ''user''
                       (VUser (req_user request))) (profiles w) of
               (obj2, tbl2) \<Rightarrow>
                 (case save_m2m fc of
                    None \<Rightarrow> tbl2
                  | Some h \<Rightarrow> snd (instance_save (h (base_fields fc) (req_POST request) obj2) tbl2)))"
  using assms
  by (simp_all add: create_process_def Let_def form_save_nocommit profiles_log calls_log
      hasattr_save_m2m_def form_save_m2m_def cleaned_data_def split: prod.splits option.splits)

section \<open>A valid submission to \<^verbatim>\<open>create_profile\<close>\<close>

text \<open>
  C3: for every valid POST to \<^verbatim>\<open>create_profile\<close> by an authenticated user without a
  profile, the response is a redirect to the success URL, which is the profile-detail
  route for the user's username when no \<^verbatim>\<open>success_url\<close> was given; afterwards the
  user has a profile, and its \<^verbatim>\<open>user\<close> is the requesting user. The handler assigns
  the user after \<^verbatim>\<open>save(commit=False)\<close> and before the object is saved, as the order
  of the calls shows. A valid POST is one that reaches validation and passes it: the
  resolver returned a model, and \<open>fc\<close> is the form class in use, the caller's or the
  synthesized one. Of a caller's own \<^verbatim>\<open>save_m2m\<close> it is assumed that it stores
  multi-valued relations only, leaving \<^verbatim>\<open>user\<close> and the primary key alone; for the
  synthesized form this is proved.
\<close>

theorem create_profile_valid_post:
  assumes auth: "is_authenticated (req_user request)"
    and nop: "\<forall>p \<in> set (profiles w). \<not> owned_by (req_user request) p"
    and model: "get_profile_model w = Inr m"
    and fc: "fst (create_form_class w m form_class) = Inr fc"
    and post: "req_method request = ''POST''"
    and valid: "is_valid \<lparr>form_cls = fc, form_data = Some (req_POST request), form_initial = None\<rparr>"
    and keeps: "\<forall>h d ob. form_class \<noteq> None \<and> save_m2m fc = Some h \<longrightarrow>
                  getattr (h (base_fields fc) d ob) ''user'' = getattr ob ''user''
                  \<and> pk (h (base_fields fc) d ob) = pk ob"
  shows "fst (create_profile w request form_class success_url template_name)
           = Inr (HttpResponseRedirect
                    (case success_url of
                       None \<Rightarrow> reverse ''profiles_profile_detail''
                                 [(''username'', username (req_user request))]
                     | Some u \<Rightarrow> u))
       \<and> (\<exists>obj. get_profile (snd (create_profile w request form_class success_url template_name))
                    (req_user request) = Inr obj
                \<and> getattr obj ''user'' = Some (VUser (req_user request)))
       \<and> new_calls w (snd (create_profile w request form_class success_url template_name))
           = [CallGetProfile, CallResolver]
             @ (if form_class = None then [CallFormForModel] else [])
             @ [CallFormInit (Some (req_POST request)) None, CallIsValid,
                CallFormSave False, AssignUser, CallObjSave]
             @ (if save_m2m fc = None then [] else [CallSaveM2M])"
proof -
  let ?u = "req_user request"
  let ?su = "case success_url of
               None \<Rightarrow> reverse ''profiles_profile_detail'' [(''username'', username ?u)]
             | Some u \<Rightarrow> u"
  let ?w2 = "log CallResolver (log CallGetProfile w)"
  let ?w3 = "snd (create_form_class ?w2 m form_class)"
  have nop': "get_profile w ?u = Inl ObjectDoesNotExist"
    by (rule get_profile_no_row [OF model nop])
  have fc': "fst (create_form_class ?w2 m form_class) = Inr fc"
    using fc by (simp add: create_form_class_def split: option.splits)
  have w3_calls: "calls ?w3 = calls w @ [CallGetProfile, CallResolver]
                     @ (if form_class = None then [CallFormForModel] else [])"
    by (simp add: create_form_class_def calls_log split: option.splits)
  have w3_profiles: "profiles ?w3 = profiles w"
    by (simp add: create_form_class_def profiles_log split: option.splits)
  have run: "create_profile w request form_class success_url template_name
               = create_process ?w3 request fc ?su template_name"
  proof (cases "create_form_class ?w2 m form_class")
    case (Pair a b)
    with fc' have "a = Inr fc" by simp
    with Pair show ?thesis using auth model
      by (simp add: create_profile_def login_required_def
          create_profile_view_no_profile [OF nop'])
  qed
  have keeps': "\<And>h ob. save_m2m fc = Some h \<Longrightarrow>
      getattr (h (base_fields fc) (req_POST request) ob) ''user'' = getattr ob ''user''
      \<and> pk (h (base_fields fc) (req_POST request) ob) = pk ob"
  proof -
    fix h ob assume h: "save_m2m fc = Some h"
    show "getattr (h (base_fields fc) (req_POST request) ob) ''user'' = getattr ob ''user''
      \<and> pk (h (base_fields fc) (req_POST request) ob) = pk ob"
    proof (cases form_class)
      case None
      with fc have "del_base_field ''user'' (form_for_model m) = Inr fc"
        by (simp add: create_form_class_def)
      then show ?thesis using h
        unfolding form_for_model_def by (rule synthesized_m2m_keeps)
    next
      case (Some c)
      with keeps h show ?thesis by blast
    qed
  qed
  obtain obj2 tbl2 where sv:
    "instance_save (setattr (save_obj fc (base_fields fc) (req_POST request)) ''user'' (VUser ?u))
       (profiles w) = (obj2, tbl2)"
    by (cases "instance_save (setattr (save_obj fc (base_fields fc) (req_POST request)) ''user''
          (VUser ?u)) (profiles w)") auto
  have T: "profiles (snd (create_process ?w3 request fc ?su template_name))
        = (case map_option (\<lambda>h. h (base_fields fc) (req_POST request)) (save_m2m fc) of
             None \<Rightarrow> tbl2 | Some h \<Rightarrow> snd (instance_save (h obj2) tbl2))"
    using create_process_valid(3) [OF post valid, of ?w3 ?su template_name] sv
    by (simp add: w3_profiles split: option.splits)
  have "\<exists>r. find (owned_by ?u) (profiles (snd (create_process ?w3 request fc ?su template_name)))
            = Some r \<and> getattr r ''user'' = Some (VUser ?u)"
  proof (rule create_saved_table [OF nop _ sv T])
    fix h ob
    assume "map_option (\<lambda>h. h (base_fields fc) (req_POST request)) (save_m2m fc) = Some h"
    then obtain h0 where "save_m2m fc = Some h0" and "h = h0 (base_fields fc) (req_POST request)"
      by auto
    then show "getattr (h ob) ''user'' = getattr ob ''user'' \<and> pk (h ob) = pk ob"
      using keeps' by simp
  qed
  then obtain r where
    r: "find (owned_by ?u) (profiles (snd (create_process ?w3 request fc ?su template_name)))
          = Some r"
    and ru: "getattr r ''user'' = Some (VUser ?u)"
    by blast
  have "get_profile (snd (create_process ?w3 request fc ?su template_name)) ?u = Inr r"
  proof (rule get_profile_after [OF _ _ _ r])
    show "get_profile w ?u \<noteq> Inl SiteProfileNotAvailable" by (simp add: nop')
    show "AUTH_PROFILE_MODULE (snd (create_process ?w3 request fc ?su template_name))
            = AUTH_PROFILE_MODULE w"
      by (simp add: create_process_settings create_form_class_settings log_settings)
    show "installed_models (snd (create_process ?w3 request fc ?su template_name))
            = installed_models w"
      by (simp add: create_process_settings create_form_class_settings log_settings)
  qed
  with ru have prof: "\<exists>obj. get_profile (snd (create_process ?w3 request fc ?su template_name)) ?u = Inr obj
                \<and> getattr obj ''user'' = Some (VUser ?u)"
    by blast
  have res: "fst (create_process ?w3 request fc ?su template_name) = Inr (HttpResponseRedirect ?su)"
    by (rule create_process_valid(1) [OF post valid])
  have cl: "new_calls w (snd (create_process ?w3 request fc ?su template_name))
      = [CallGetProfile, CallResolver]
             @ (if form_class = None then [CallFormForModel] else [])
             @ [CallFormInit (Some (req_POST request)) None, CallIsValid,
                CallFormSave False, AssignUser, CallObjSave]
             @ (if save_m2m fc = None then [] else [CallSaveM2M])"
    using create_process_valid(2) [OF post valid, of ?w3 ?su template_name]
    by (simp add: new_calls_def w3_calls)
  from res prof cl show ?thesis by (simp only: run) 
qed

theorem create_profile_valid_post_witness:
  "is_authenticated (req_user (post_request alice rome))
   \<and> filter (owned_by (req_user (post_request alice rome))) (profiles site) = []
   \<and> get_profile_model site = Inr site_profile
   \<and> fst (create_form_class site site_profile None) = Inr site_form
   \<and> req_method (post_request alice rome) = ''POST''
   \<and> is_valid \<lparr>form_cls = site_form, form_data = Some (req_POST (post_request alice rome)),
               form_initial = None\<rparr>
   \<and> fst (create_profile site (post_request alice rome) None None ''profiles/create_profile.html'')
       = Inr (HttpResponseRedirect (Reverse ''profiles_profile_detail'' [(''username'', ''alice'')]))
   \<and> (\<exists>obj. get_profile (snd (create_profile site (post_request alice rome) None None
                                ''profiles/create_profile.html'')) alice = Inr obj
          \<and> getattr obj ''user'' = Some (VUser alice))"
proof -
  let ?r = "post_request alice rome"
  have a: "is_authenticated (req_user ?r)" by code_simp
  have b: "\<forall>p \<in> set (profiles site). \<not> owned_by (req_user ?r) p" by code_simp
  have b2: "filter (owned_by (req_user ?r)) (profiles site) = []" by code_simp
  have c: "get_profile_model site = Inr site_profile" by code_simp
  have d: "fst (create_form_class site site_profile None) = Inr site_form"
    by (simp add: create_form_class_def del_base_field_def site_form_def form_for_model_def
        synthesized_form_def model_field_dict_def site_profile_def profile_opts_def)
  have e: "req_method ?r = ''POST''" by code_simp
  have f: "is_valid \<lparr>form_cls = site_form, form_data = Some (req_POST ?r), form_initial = None\<rparr>"
    by code_simp
  have g: "\<forall>h d ob. (None :: form_class option) \<noteq> None \<and> save_m2m site_form = Some h \<longrightarrow>
                  getattr (h (base_fields site_form) d ob) ''user'' = getattr ob ''user''
                  \<and> pk (h (base_fields site_form) d ob) = pk ob" by simp
  have u: "req_user ?r = alice" by (simp add: post_request_def)
  have un: "username alice = ''alice''" by (simp add: alice_def)
  note th = create_profile_valid_post
              [OF a b c d e f g, of None "''profiles/create_profile.html''", unfolded u]
  from th have r1:
    "fst (create_profile site ?r None None ''profiles/create_profile.html'')
       = Inr (HttpResponseRedirect (Reverse ''profiles_profile_detail'' [(''username'', ''alice'')]))"
    by (simp add: reverse_def un)
  from th have r2:
    "\<exists>obj. get_profile (snd (create_profile site ?r None None
                                ''profiles/create_profile.html'')) alice = Inr obj
          \<and> getattr obj ''user'' = Some (VUser alice)"
    by blast
  from a b2 c d e f r1 r2 show ?thesis by blast
qed

section \<open>Saving an existing profile\<close>






section \<open>The branches of the handlers\<close>

lemma edit_profile_view_with_profile:
  assumes "get_profile w (req_user request) = Inr p"
  shows "edit_profile_view fco su tn w request =
     (case edit_form_class (log CallGetProfile w) p fco of
        (Inl e, w2) \<Rightarrow> (Inl e, w2)
      | (Inr fc, w2) \<Rightarrow>
          edit_process w2 request p fc
            (case su of
               None \<Rightarrow> reverse ''profiles_profile_detail''
                         [(''username'', username (req_user request))]
             | Some u \<Rightarrow> u) tn)"
  using assms by (simp add: edit_profile_view_def Let_def get_profile_log)

lemma edit_profile_run:
  assumes auth: "is_authenticated (req_user request)"
    and prof: "get_profile w (req_user request) = Inr p"
    and fc: "fst (edit_form_class w p form_class) = Inr fc"
  shows "edit_profile w request form_class success_url template_name
           = edit_process (snd (edit_form_class (log CallGetProfile w) p form_class)) request p fc
               (case success_url of
                  None \<Rightarrow> reverse ''profiles_profile_detail''
                            [(''username'', username (req_user request))]
                | Some u \<Rightarrow> u) template_name"
proof (cases "edit_form_class (log CallGetProfile w) p form_class")
  case (Pair a b)
  have "fst (edit_form_class (log CallGetProfile w) p form_class) = Inr fc"
    using fc by (simp add: edit_form_class_def split: option.splits)
  with Pair have "a = Inr fc" by simp
  with Pair show ?thesis using auth
    by (simp add: edit_profile_def login_required_def edit_profile_view_with_profile [OF prof])
qed


lemma edit_form_class_profiles: "profiles (snd (edit_form_class w p fco)) = profiles w"
  by (simp add: edit_form_class_def profiles_log split: option.splits)

lemma create_form_class_profiles: "profiles (snd (create_form_class w m fco)) = profiles w"
  by (simp add: create_form_class_def profiles_log split: option.splits)


lemma edit_process_invalid:
  assumes "req_method request = ''POST''"
    and "\<not> is_valid \<lparr>form_cls = fc, form_data = Some (req_POST request),
                   form_initial = Some (get_initial_data p)\<rparr>"
  shows "edit_process w request p fc su tn
          = (Inr (Rendered tn
                    \<lparr>ctx_form = Some \<lparr>form_cls = fc, form_data = Some (req_POST request),
                                        form_initial = Some (get_initial_data p)\<rparr>,
                      ctx_profile = Some p\<rparr>),
             log CallRender (log CallIsValid
               (log (CallFormInit (Some (req_POST request)) (Some (get_initial_data p))) w)))"
  using assms
  by (simp add: edit_process_def Let_def render_to_response_def)


lemma create_process_invalid:
  assumes "req_method request = ''POST''"
    and "\<not> is_valid \<lparr>form_cls = fc, form_data = Some (req_POST request), form_initial = None\<rparr>"
  shows "create_process w request fc su tn
          = (Inr (Rendered tn
                    \<lparr>ctx_form = Some \<lparr>form_cls = fc, form_data = Some (req_POST request),
                                        form_initial = None\<rparr>,
                      ctx_profile = None\<rparr>),
             log CallRender (log CallIsValid
               (log (CallFormInit (Some (req_POST request)) None) w)))"
  using assms
  by (simp add: create_process_def Let_def render_to_response_def)

lemma create_profile_run:
  assumes auth: "is_authenticated (req_user request)"
    and nop: "get_profile w (req_user request) = Inl ObjectDoesNotExist"
    and model: "get_profile_model w = Inr m"
    and fc: "fst (create_form_class w m form_class) = Inr fc"
  shows "create_profile w request form_class success_url template_name
           = create_process
               (snd (create_form_class (log CallResolver (log CallGetProfile w)) m form_class))
               request fc
               (case success_url of
                  None \<Rightarrow> reverse ''profiles_profile_detail''
                            [(''username'', username (req_user request))]
                | Some u \<Rightarrow> u) template_name"
proof (cases "create_form_class (log CallResolver (log CallGetProfile w)) m form_class")
  case (Pair a b)
  have "fst (create_form_class (log CallResolver (log CallGetProfile w)) m form_class) = Inr fc"
    using fc by (simp add: create_form_class_def split: option.splits)
  with Pair have "a = Inr fc" by simp
  with Pair show ?thesis using auth model
    by (simp add: create_profile_def login_required_def create_profile_view_no_profile [OF nop])
qed

lemma invalid_form_errors:
  "\<not> is_valid \<lparr>form_cls = fc, form_data = Some d, form_initial = i\<rparr>
     \<Longrightarrow> form_errors \<lparr>form_cls = fc, form_data = Some d, form_initial = i\<rparr> \<noteq> []"
  by (simp add: is_valid_def)

section \<open>An invalid submission\<close>

text \<open>
  C4: for every POST to \<^verbatim>\<open>create_profile\<close> or \<^verbatim>\<open>edit_profile\<close> whose data the form
  rejects, the handler returns normally with the rendered template (not a redirect,
  not an exception); the form in the context is the bound form, so it carries the
  validation errors, which are not empty; and the profile table is unchanged. An
  invalid POST is one that reaches validation and fails it: in \<^verbatim>\<open>create_profile\<close> the
  user has no profile and the resolver returned a model, in \<^verbatim>\<open>edit_profile\<close> the user
  has a profile, and \<open>fc\<close> is the form class in use.
\<close>

theorem invalid_post_rerenders:
  assumes auth: "is_authenticated (req_user request)"
    and post: "req_method request = ''POST''"
  shows "(\<forall>m fc. (\<forall>p \<in> set (profiles w). \<not> owned_by (req_user request) p)
            \<and> get_profile_model w = Inr m
            \<and> fst (create_form_class w m form_class) = Inr fc
            \<and> \<not> is_valid \<lparr>form_cls = fc, form_data = Some (req_POST request), form_initial = None\<rparr>
          \<longrightarrow> (\<exists>form. fst (create_profile w request form_class success_url template_name)
                        = Inr (Rendered template_name \<lparr>ctx_form = Some form, ctx_profile = None\<rparr>)
                  \<and> form_cls form = fc \<and> form_data form = Some (req_POST request)
                  \<and> form_errors form \<noteq> [])
              \<and> profiles (snd (create_profile w request form_class success_url template_name))
                  = profiles w)
       \<and> (\<forall>p fc. get_profile w (req_user request) = Inr p
            \<and> fst (edit_form_class w p form_class) = Inr fc
            \<and> \<not> is_valid \<lparr>form_cls = fc, form_data = Some (req_POST request),
                             form_initial = Some (get_initial_data p)\<rparr>
          \<longrightarrow> (\<exists>form. fst (edit_profile w request form_class success_url template_name)
                        = Inr (Rendered template_name \<lparr>ctx_form = Some form, ctx_profile = Some p\<rparr>)
                  \<and> form_cls form = fc \<and> form_data form = Some (req_POST request)
                  \<and> form_errors form \<noteq> [])
              \<and> profiles (snd (edit_profile w request form_class success_url template_name))
                  = profiles w)"
proof (intro conjI allI impI)
  fix m fc
  assume h: "(\<forall>p \<in> set (profiles w). \<not> owned_by (req_user request) p)
            \<and> get_profile_model w = Inr m
            \<and> fst (create_form_class w m form_class) = Inr fc
            \<and> \<not> is_valid \<lparr>form_cls = fc, form_data = Some (req_POST request), form_initial = None\<rparr>"
  then have nop: "get_profile w (req_user request) = Inl ObjectDoesNotExist"
    using get_profile_no_row by blast
  from h have inv: "\<not> is_valid \<lparr>form_cls = fc, form_data = Some (req_POST request), form_initial = None\<rparr>"
    by simp
  from h have run: "create_profile w request form_class success_url template_name
           = create_process
               (snd (create_form_class (log CallResolver (log CallGetProfile w)) m form_class))
               request fc
               (case success_url of
                  None \<Rightarrow> reverse ''profiles_profile_detail''
                            [(''username'', username (req_user request))]
                | Some u \<Rightarrow> u) template_name"
    using create_profile_run [OF auth nop] by simp
  show "\<exists>form. fst (create_profile w request form_class success_url template_name)
                        = Inr (Rendered template_name \<lparr>ctx_form = Some form, ctx_profile = None\<rparr>)
                  \<and> form_cls form = fc \<and> form_data form = Some (req_POST request)
                  \<and> form_errors form \<noteq> []"
    using invalid_form_errors [OF inv]
    by (simp add: run create_process_invalid [OF post inv])
  show "profiles (snd (create_profile w request form_class success_url template_name)) = profiles w"
    by (simp add: run create_process_invalid [OF post inv] profiles_log create_form_class_profiles)
next
  fix p fc
  assume h: "get_profile w (req_user request) = Inr p
            \<and> fst (edit_form_class w p form_class) = Inr fc
            \<and> \<not> is_valid \<lparr>form_cls = fc, form_data = Some (req_POST request),
                             form_initial = Some (get_initial_data p)\<rparr>"
  then have inv: "\<not> is_valid \<lparr>form_cls = fc, form_data = Some (req_POST request),
                             form_initial = Some (get_initial_data p)\<rparr>" by simp
  from h have run: "edit_profile w request form_class success_url template_name
           = edit_process (snd (edit_form_class (log CallGetProfile w) p form_class)) request p fc
               (case success_url of
                  None \<Rightarrow> reverse ''profiles_profile_detail''
                            [(''username'', username (req_user request))]
                | Some u \<Rightarrow> u) template_name"
    using edit_profile_run [OF auth] by simp
  show "\<exists>form. fst (edit_profile w request form_class success_url template_name)
                        = Inr (Rendered template_name \<lparr>ctx_form = Some form, ctx_profile = Some p\<rparr>)
                  \<and> form_cls form = fc \<and> form_data form = Some (req_POST request)
                  \<and> form_errors form \<noteq> []"
    using invalid_form_errors [OF inv]
    by (simp add: run edit_process_invalid [OF post inv])
  show "profiles (snd (edit_profile w request form_class success_url template_name)) = profiles w"
    by (simp add: run edit_process_invalid [OF post inv] profiles_log edit_form_class_profiles)
qed

theorem invalid_post_rerenders_witness:
  "is_authenticated (req_user (post_request alice []))
   \<and> req_method (post_request alice []) = ''POST''
   \<and> filter (owned_by (req_user (post_request alice []))) (profiles site) = []
   \<and> get_profile_model site = Inr site_profile
   \<and> fst (create_form_class site site_profile None) = Inr site_form
   \<and> \<not> is_valid \<lparr>form_cls = site_form, form_data = Some (req_POST (post_request alice [])),
                   form_initial = None\<rparr>
   \<and> (\<exists>form. fst (create_profile site (post_request alice []) None None
                      ''profiles/create_profile.html'')
                = Inr (Rendered ''profiles/create_profile.html''
                         \<lparr>ctx_form = Some form, ctx_profile = None\<rparr>)
              \<and> form_errors form \<noteq> [])
   \<and> profiles (snd (create_profile site (post_request alice []) None None
                      ''profiles/create_profile.html'')) = profiles site
   \<and> is_authenticated (req_user (post_request bob []))
   \<and> req_method (post_request bob []) = ''POST''
   \<and> get_profile site (req_user (post_request bob [])) = Inr bob_profile
   \<and> fst (edit_form_class site bob_profile (Some city_form)) = Inr city_form
   \<and> \<not> is_valid \<lparr>form_cls = city_form, form_data = Some (req_POST (post_request bob [])),
                   form_initial = Some (get_initial_data bob_profile)\<rparr>
   \<and> (\<exists>form. fst (edit_profile site (post_request bob []) (Some city_form) None
                      ''profiles/edit_profile.html'')
                = Inr (Rendered ''profiles/edit_profile.html''
                         \<lparr>ctx_form = Some form, ctx_profile = Some bob_profile\<rparr>)
              \<and> form_errors form \<noteq> [])
   \<and> profiles (snd (edit_profile site (post_request bob []) (Some city_form) None
                      ''profiles/edit_profile.html'')) = profiles site"
proof -
  let ?ra = "post_request alice []" and ?rb = "post_request bob []"
  have a1: "is_authenticated (req_user ?ra)" by code_simp
  have a2: "req_method ?ra = ''POST''" by code_simp
  have a3: "\<forall>p \<in> set (profiles site). \<not> owned_by (req_user ?ra) p" by code_simp
  have a3': "filter (owned_by (req_user ?ra)) (profiles site) = []" by code_simp
  have a4: "get_profile_model site = Inr site_profile" by code_simp
  have a5: "fst (create_form_class site site_profile None) = Inr site_form"
    by (simp add: create_form_class_def del_base_field_def site_form_def form_for_model_def
        synthesized_form_def model_field_dict_def site_profile_def profile_opts_def)
  have a6: "\<not> is_valid \<lparr>form_cls = site_form, form_data = Some (req_POST ?ra),
                   form_initial = None\<rparr>" by code_simp
  have b1: "is_authenticated (req_user ?rb)" by code_simp
  have b2: "req_method ?rb = ''POST''" by code_simp
  have b3: "get_profile site (req_user ?rb) = Inr bob_profile" by code_simp
  have b4: "fst (edit_form_class site bob_profile (Some city_form)) = Inr city_form"
    by (simp add: edit_form_class_def)
  have b5: "\<not> is_valid \<lparr>form_cls = city_form, form_data = Some (req_POST ?rb),
                   form_initial = Some (get_initial_data bob_profile)\<rparr>" by code_simp
  note tha = invalid_post_rerenders [OF a1 a2, of site None None "''profiles/create_profile.html''"]
  note thb = invalid_post_rerenders [OF b1 b2, of site "Some city_form" None "''profiles/edit_profile.html''"]
  from tha a3 a4 a5 a6 have ca:
    "(\<exists>form. fst (create_profile site ?ra None None ''profiles/create_profile.html'')
                = Inr (Rendered ''profiles/create_profile.html''
                         \<lparr>ctx_form = Some form, ctx_profile = None\<rparr>)
              \<and> form_errors form \<noteq> [])
     \<and> profiles (snd (create_profile site ?ra None None ''profiles/create_profile.html''))
         = profiles site"
    by blast
  from thb b3 b4 b5 have cb:
    "(\<exists>form. fst (edit_profile site ?rb (Some city_form) None ''profiles/edit_profile.html'')
                = Inr (Rendered ''profiles/edit_profile.html''
                         \<lparr>ctx_form = Some form, ctx_profile = Some bob_profile\<rparr>)
              \<and> form_errors form \<noteq> [])
     \<and> profiles (snd (edit_profile site ?rb (Some city_form) None ''profiles/edit_profile.html''))
         = profiles site"
    by blast
  from a1 a2 a3' a4 a5 a6 b1 b2 b3 b4 b5 ca cb show ?thesis by blast
qed



section \<open>A valid submission to \<^verbatim>\<open>edit_profile\<close>\<close>



section \<open>Dicts built from the model's fields\<close>

lemma fold_update_keys:
  "fst ` set (fold (\<lambda>f d. AList.update (name f) (g f) d) xs d0) = fst ` set d0 \<union> name ` set xs"
  by (induction xs arbitrary: d0) (auto simp: dom_update)


lemma model_field_dict_keys:
  "fst ` set (model_field_dict opts) = name ` set (meta_fields opts @ many_to_many opts)"
  unfolding model_field_dict_def by (simp only: fold_update_keys) simp




section \<open>Initial data in \<^verbatim>\<open>edit_profile\<close>\<close>



lemma del_base_field_present:
  "k \<in> fst ` set (base_fields fc) \<Longrightarrow>
     del_base_field k fc = Inr (fc\<lparr>base_fields := AList.delete k (base_fields fc)\<rparr>)"
  by (simp add: del_base_field_def map_of_eq_None_iff)

lemma del_base_field_absent:
  "k \<notin> fst ` set (base_fields fc) \<Longrightarrow> del_base_field k fc = Inl KeyError"
  by (simp add: del_base_field_def map_of_eq_None_iff)

lemma filter_keys: "fst ` set [(n, f) \<leftarrow> d. n \<notin> set ex] = fst ` set d - set ex"
  by (induction d) auto

lemma ModelForm_keys:
  "fst ` set (base_fields (ModelForm opts ex))
     = name ` set (meta_fields opts @ many_to_many opts) - set ex"
proof -
  have "base_fields (ModelForm opts ex) = [(n, f) \<leftarrow> model_field_dict opts. n \<notin> set ex]"
    by (simp add: ModelForm_def synthesized_form_def)
  then show ?thesis by (simp only: filter_keys model_field_dict_keys)
qed

section \<open>The fields of the default form\<close>

text \<open>
  C6: for every profile model, which has a field named \<^verbatim>\<open>user\<close>, the form class that
  \<^verbatim>\<open>create_profile\<close> synthesizes from the model and the one that \<^verbatim>\<open>edit_profile\<close>
  synthesizes from the profile have as their fields exactly the model's scalar and
  many-to-many fields without \<^verbatim>\<open>user\<close>; so has the \<^verbatim>\<open>ModelForm\<close> of
  \<^verbatim>\<open>get_profile_form\<close>. Nothing else is removed.
\<close>

theorem default_form_fields:
  assumes m: "''user'' \<in> name ` set (meta_fields (meta m) @ many_to_many (meta m))"
    and p: "''user'' \<in> name ` set (meta_fields (inst_meta p) @ many_to_many (inst_meta p))"
  shows "(\<exists>fc. fst (create_form_class w m None) = Inr fc
            \<and> fst ` set (base_fields fc)
                = name ` set (meta_fields (meta m) @ many_to_many (meta m)) - {''user''})
       \<and> (\<exists>fc. fst (edit_form_class w p None) = Inr fc
            \<and> fst ` set (base_fields fc)
                = name ` set (meta_fields (inst_meta p) @ many_to_many (inst_meta p)) - {''user''})
       \<and> (\<forall>u. get_profile w u = Inr p \<longrightarrow>
            (\<exists>fc. get_profile_form w u = Inr fc
               \<and> fst ` set (base_fields fc)
                   = name ` set (meta_fields (inst_meta p) @ many_to_many (inst_meta p)) - {''user''}))"
proof (intro conjI allI impI)
  have "''user'' \<in> fst ` set (base_fields (form_for_model m))"
    using m by (simp add: form_for_model_def synthesized_form_def model_field_dict_keys del: set_append)
  from del_base_field_present [OF this]
  show "\<exists>fc. fst (create_form_class w m None) = Inr fc
            \<and> fst ` set (base_fields fc)
                = name ` set (meta_fields (meta m) @ many_to_many (meta m)) - {''user''}"
    by (simp add: create_form_class_def keys_delete form_for_model_def synthesized_form_def
        model_field_dict_keys del: set_append)
next
  have "''user'' \<in> fst ` set (base_fields (form_for_instance p))"
    using p by (simp add: form_for_instance_def synthesized_form_def model_field_dict_keys del: set_append)
  from del_base_field_present [OF this]
  show "\<exists>fc. fst (edit_form_class w p None) = Inr fc
            \<and> fst ` set (base_fields fc)
                = name ` set (meta_fields (inst_meta p) @ many_to_many (inst_meta p)) - {''user''}"
    by (simp add: edit_form_class_def keys_delete form_for_instance_def synthesized_form_def
        model_field_dict_keys del: set_append)
next
  fix u assume "get_profile w u = Inr p"
  then show "\<exists>fc. get_profile_form w u = Inr fc
               \<and> fst ` set (base_fields fc)
                   = name ` set (meta_fields (inst_meta p) @ many_to_many (inst_meta p)) - {''user''}"
    by (simp add: get_profile_form_def ModelForm_keys del: set_append)
qed

theorem default_form_fields_witness:
  "''user'' \<in> name ` set (meta_fields (meta site_profile) @ many_to_many (meta site_profile))
   \<and> ''user'' \<in> name ` set (meta_fields (inst_meta bob_profile) @ many_to_many (inst_meta bob_profile))
   \<and> fst (create_form_class site site_profile None) = Inr site_form
   \<and> fst ` set (base_fields site_form) = {''id'', ''city'', ''groups''}
   \<and> fst (edit_form_class site bob_profile None) = Inr bob_form
   \<and> fst ` set (base_fields bob_form) = {''id'', ''city'', ''groups''}
   \<and> get_profile site bob = Inr bob_profile
   \<and> (\<exists>fc. get_profile_form site bob = Inr fc
          \<and> fst ` set (base_fields fc) = {''id'', ''city'', ''groups''})"
proof -
  have a: "''user'' \<in> name ` set (meta_fields (meta site_profile) @ many_to_many (meta site_profile))"
    by (simp add: site_profile_def profile_opts_def)
  have b: "''user'' \<in> name ` set (meta_fields (inst_meta bob_profile) @ many_to_many (inst_meta bob_profile))"
    by (simp add: bob_profile_def profile_opts_def)
  have c: "fst (create_form_class site site_profile None) = Inr site_form"
    by (simp add: create_form_class_def del_base_field_def site_form_def form_for_model_def
        synthesized_form_def model_field_dict_def site_profile_def profile_opts_def)
  have d: "fst (edit_form_class site bob_profile None) = Inr bob_form"
    by (simp add: edit_form_class_def del_base_field_def bob_form_def form_for_instance_def
        synthesized_form_def model_field_dict_def bob_profile_def profile_opts_def)
  have e: "get_profile site bob = Inr bob_profile" by code_simp
  have na: "name ` set (meta_fields (meta site_profile) @ many_to_many (meta site_profile)) - {''user''}
              = {''id'', ''city'', ''groups''}"
    by (auto simp: site_profile_def profile_opts_def)
  have nb: "name ` set (meta_fields (inst_meta bob_profile) @ many_to_many (inst_meta bob_profile)) - {''user''}
              = {''id'', ''city'', ''groups''}"
    by (auto simp: bob_profile_def profile_opts_def)
  note th = default_form_fields [OF a b, of site, unfolded na nb c d]
  from th have r1: "fst ` set (base_fields site_form) = {''id'', ''city'', ''groups''}" by auto
  from th have r2: "fst ` set (base_fields bob_form) = {''id'', ''city'', ''groups''}" by auto
  from th e have r3: "\<exists>fc. get_profile_form site bob = Inr fc
          \<and> fst ` set (base_fields fc) = {''id'', ''city'', ''groups''}" by blast
  from a b c d e r1 r2 r3 show ?thesis by blast
qed

section \<open>A profile model that cannot be resolved\<close>



end
